theory Spec2Isabelle
  imports Main "HOL-Library.Word"
begin

unbundle bit_operations_syntax

section \<open>NekoTools: settings view, path command and external-terminal command\<close>

text \<open>
  A shallow embedding of \<^verbatim>\<open>src/extension.ts\<close>. The extension is glue code over the
  editor host: every handler reads the configuration, asks the host something (the context
  argument, the active editor, a file-type query, the user's answer to a notification) and
  performs actions (notifications, clipboard writes, configuration updates, one spawned shell
  command). The host's answers are the fields of the record \<open>host\<close>; the actions are appended
  to a trace, in the order in which the handler performs them.
\<close>

subsection \<open>Strings and string literals\<close>

text \<open>
  A string is a \<open>char list\<close> holding the UTF-8 bytes of the text. The literals of the source
  that are not plain ASCII are given below byte by byte, exactly as they stand in the source
  file (which is UTF-8); each constant is named after what the text says, with the source line
  that holds it.
\<close>

definition label_getPath :: string where
  \<comment> \<open>line 60, label of the first setting ("get file path")\<close>
  \<open>label_getPath =
     [CHR 0xF0, CHR 0x9F, CHR 0x93, CHR 0x84] @ '' '' @ [CHR 0xE8, CHR 0x8E, CHR 0xB7,
       CHR 0xE5, CHR 0x8F, CHR 0x96, CHR 0xE6, CHR 0x96, CHR 0x87, CHR 0xE4, CHR 0xBB,
       CHR 0xB6, CHR 0xE8, CHR 0xB7, CHR 0xAF, CHR 0xE5, CHR 0xBE, CHR 0x84]\<close>

definition description_getPath :: string where
  \<comment> \<open>line 64\<close>
  \<open>description_getPath =
     [CHR 0xE5, CHR 0x90, CHR 0xAF, CHR 0xE7, CHR 0x94, CHR 0xA8, CHR 0xE6, CHR 0x88, CHR 0x96,
       CHR 0xE7, CHR 0xA6, CHR 0x81, CHR 0xE7, CHR 0x94, CHR 0xA8, CHR 0xE8, CHR 0x8E,
       CHR 0xB7, CHR 0xE5, CHR 0x8F, CHR 0x96, CHR 0xE6, CHR 0x96, CHR 0x87, CHR 0xE4,
       CHR 0xBB, CHR 0xB6, CHR 0xE8, CHR 0xB7, CHR 0xAF, CHR 0xE5, CHR 0xBE, CHR 0x84,
       CHR 0xE5, CHR 0x8A, CHR 0x9F, CHR 0xE8, CHR 0x83, CHR 0xBD]\<close>

definition label_openTerminal :: string where
  \<comment> \<open>line 67, label of the second setting ("open in external terminal")\<close>
  \<open>label_openTerminal =
     [CHR 0xF0, CHR 0x9F, CHR 0x96, CHR 0xA5, CHR 0xEF, CHR 0xB8,
       CHR 0x8F] @ '' '' @ [CHR 0xE5, CHR 0xA4, CHR 0x96, CHR 0xE9, CHR 0x83, CHR 0xA8,
       CHR 0xE7, CHR 0xBB, CHR 0x88, CHR 0xE7, CHR 0xAB, CHR 0xAF, CHR 0xE6, CHR 0x89,
       CHR 0x93, CHR 0xE5, CHR 0xBC, CHR 0x80]\<close>

definition description_openTerminal :: string where
  \<comment> \<open>line 71\<close>
  \<open>description_openTerminal =
     [CHR 0xE5, CHR 0x90, CHR 0xAF, CHR 0xE7, CHR 0x94, CHR 0xA8, CHR 0xE6, CHR 0x88, CHR 0x96,
       CHR 0xE7, CHR 0xA6, CHR 0x81, CHR 0xE7, CHR 0x94, CHR 0xA8, CHR 0xE5, CHR 0x9C,
       CHR 0xA8, CHR 0xE5, CHR 0xA4, CHR 0x96, CHR 0xE9, CHR 0x83, CHR 0xA8, CHR 0xE7,
       CHR 0xBB, CHR 0x88, CHR 0xE7, CHR 0xAB, CHR 0xAF, CHR 0xE4, CHR 0xB8, CHR 0xAD,
       CHR 0xE6, CHR 0x89, CHR 0x93, CHR 0xE5, CHR 0xBC, CHR 0x80, CHR 0xE5, CHR 0x8A,
       CHR 0x9F, CHR 0xE8, CHR 0x83, CHR 0xBD]\<close>

definition label_showIcons :: string where
  \<comment> \<open>line 74, label of the third setting ("show icons")\<close>
  \<open>label_showIcons =
     [CHR 0xF0, CHR 0x9F, CHR 0x8E, CHR 0xA8] @ '' '' @ [CHR 0xE6, CHR 0x98, CHR 0xBE,
       CHR 0xE7, CHR 0xA4, CHR 0xBA, CHR 0xE5, CHR 0x9B, CHR 0xBE, CHR 0xE6, CHR 0xA0, CHR 0x87]\<close>

definition description_showIcons :: string where
  \<comment> \<open>line 78\<close>
  \<open>description_showIcons =
     [CHR 0xE5, CHR 0x9C, CHR 0xA8, CHR 0xE8, CHR 0xB7, CHR 0xAF, CHR 0xE5, CHR 0xBE, CHR 0x84,
       CHR 0xE6, CHR 0x98, CHR 0xBE, CHR 0xE7, CHR 0xA4, CHR 0xBA, CHR 0xE4, CHR 0xB8,
       CHR 0xAD, CHR 0xE6, CHR 0x98, CHR 0xBE, CHR 0xE7, CHR 0xA4, CHR 0xBA, CHR 0xE6,
       CHR 0x96, CHR 0x87, CHR 0xE4, CHR 0xBB, CHR 0xB6] @ ''/'' @ [CHR 0xE6, CHR 0x96,
       CHR 0x87, CHR 0xE4, CHR 0xBB, CHR 0xB6, CHR 0xE5, CHR 0xA4, CHR 0xB9, CHR 0xE5,
       CHR 0x9B, CHR 0xBE, CHR 0xE6, CHR 0xA0, CHR 0x87]\<close>

definition label_autoClipboard :: string where
  \<comment> \<open>line 81, label of the fourth setting ("copy automatically")\<close>
  \<open>label_autoClipboard =
     [CHR 0xF0, CHR 0x9F, CHR 0x93, CHR 0x8B] @ '' '' @ [CHR 0xE8, CHR 0x87, CHR 0xAA,
       CHR 0xE5, CHR 0x8A, CHR 0xA8, CHR 0xE5, CHR 0xA4, CHR 0x8D, CHR 0xE5, CHR 0x88, CHR 0xB6]\<close>

definition description_autoClipboard :: string where
  \<comment> \<open>line 85\<close>
  \<open>description_autoClipboard =
     [CHR 0xE8, CHR 0x8E, CHR 0xB7, CHR 0xE5, CHR 0x8F, CHR 0x96, CHR 0xE8, CHR 0xB7, CHR 0xAF,
       CHR 0xE5, CHR 0xBE, CHR 0x84, CHR 0xE6, CHR 0x97, CHR 0xB6, CHR 0xE8, CHR 0x87,
       CHR 0xAA, CHR 0xE5, CHR 0x8A, CHR 0xA8, CHR 0xE5, CHR 0xA4, CHR 0x8D, CHR 0xE5,
       CHR 0x88, CHR 0xB6, CHR 0xE5, CHR 0x88, CHR 0xB0, CHR 0xE5, CHR 0x89, CHR 0xAA,
       CHR 0xE8, CHR 0xB4, CHR 0xB4, CHR 0xE6, CHR 0x9D, CHR 0xBF]\<close>

definition txt_feature :: string where
  \<comment> \<open>line 114, the template up to the key ("feature ")\<close>
  \<open>txt_feature =
     [CHR 0xE5, CHR 0x8A, CHR 0x9F, CHR 0xE8, CHR 0x83, CHR 0xBD] @ '' ''\<close>

definition txt_already :: string where
  \<comment> \<open>line 114, between the key and the state\<close>
  \<open>txt_already =
     '' '' @ [CHR 0xE5, CHR 0xB7, CHR 0xB2]\<close>

definition txt_enabled :: string where
  \<comment> \<open>line 114 ("enabled")\<close>
  \<open>txt_enabled =
     [CHR 0xE5, CHR 0x90, CHR 0xAF, CHR 0xE7, CHR 0x94, CHR 0xA8]\<close>

definition txt_disabled :: string where
  \<comment> \<open>line 114 ("disabled")\<close>
  \<open>txt_disabled =
     [CHR 0xE7, CHR 0xA6, CHR 0x81, CHR 0xE7, CHR 0x94, CHR 0xA8]\<close>

definition txt_getPath_disabled :: string where
  \<comment> \<open>line 132, the warning that the path feature is disabled\<close>
  \<open>txt_getPath_disabled =
     [CHR 0xE8, CHR 0x8E, CHR 0xB7, CHR 0xE5, CHR 0x8F, CHR 0x96, CHR 0xE6, CHR 0x96, CHR 0x87,
       CHR 0xE4, CHR 0xBB, CHR 0xB6, CHR 0xE8, CHR 0xB7, CHR 0xAF, CHR 0xE5, CHR 0xBE,
       CHR 0x84, CHR 0xE5, CHR 0x8A, CHR 0x9F, CHR 0xE8, CHR 0x83, CHR 0xBD, CHR 0xE5,
       CHR 0xB7, CHR 0xB2, CHR 0xE7, CHR 0xA6, CHR 0x81, CHR 0xE7, CHR 0x94, CHR 0xA8,
       CHR 0xEF, CHR 0xBC, CHR 0x8C, CHR 0xE8, CHR 0xAF, CHR 0xB7, CHR 0xE5, CHR 0x9C,
       CHR 0xA8] @ ''NekoTools'' @ [CHR 0xE8, CHR 0xAE, CHR 0xBE, CHR 0xE7, CHR 0xBD, CHR 0xAE,
       CHR 0xE4, CHR 0xB8, CHR 0xAD, CHR 0xE5, CHR 0x90, CHR 0xAF, CHR 0xE7, CHR 0x94, CHR 0xA8]\<close>

definition txt_folder_icon :: string where
  \<comment> \<open>line 151, folder message with the folder glyph\<close>
  \<open>txt_folder_icon =
     [CHR 0xF0, CHR 0x9F, CHR 0x93, CHR 0x81] @ '' '' @ [CHR 0xE6, CHR 0x96, CHR 0x87,
       CHR 0xE4, CHR 0xBB, CHR 0xB6, CHR 0xE5, CHR 0xA4, CHR 0xB9, CHR 0xE8, CHR 0xB7,
       CHR 0xAF, CHR 0xE5, CHR 0xBE, CHR 0x84] @ '': ''\<close>

definition txt_folder :: string where
  \<comment> \<open>line 151, folder message without glyph\<close>
  \<open>txt_folder =
     [CHR 0xE6, CHR 0x96, CHR 0x87, CHR 0xE4, CHR 0xBB, CHR 0xB6, CHR 0xE5, CHR 0xA4, CHR 0xB9,
       CHR 0xE8, CHR 0xB7, CHR 0xAF, CHR 0xE5, CHR 0xBE, CHR 0x84] @ '': ''\<close>

definition txt_file_icon :: string where
  \<comment> \<open>line 153, file message with the page glyph\<close>
  \<open>txt_file_icon =
     [CHR 0xF0, CHR 0x9F, CHR 0x93, CHR 0x84] @ '' '' @ [CHR 0xE6, CHR 0x96, CHR 0x87,
       CHR 0xE4, CHR 0xBB, CHR 0xB6, CHR 0xE8, CHR 0xB7, CHR 0xAF, CHR 0xE5, CHR 0xBE,
       CHR 0x84] @ '': ''\<close>

definition txt_file :: string where
  \<comment> \<open>line 153, file message without glyph\<close>
  \<open>txt_file =
     [CHR 0xE6, CHR 0x96, CHR 0x87, CHR 0xE4, CHR 0xBB, CHR 0xB6, CHR 0xE8, CHR 0xB7, CHR 0xAF,
       CHR 0xE5, CHR 0xBE, CHR 0x84] @ '': ''\<close>

definition txt_copied_suffix :: string where
  \<comment> \<open>line 159 and 180 (" (copied to clipboard)")\<close>
  \<open>txt_copied_suffix =
     '' ('' @ [CHR 0xE5, CHR 0xB7, CHR 0xB2, CHR 0xE5, CHR 0xA4, CHR 0x8D, CHR 0xE5, CHR 0x88,
       CHR 0xB6, CHR 0xE5, CHR 0x88, CHR 0xB0, CHR 0xE5, CHR 0x89, CHR 0xAA, CHR 0xE8,
       CHR 0xB4, CHR 0xB4, CHR 0xE6, CHR 0x9D, CHR 0xBF] @ '')''\<close>

definition txt_copy_path :: string where
  \<comment> \<open>line 162 and 183, the action offered with the message ("copy path")\<close>
  \<open>txt_copy_path =
     [CHR 0xE5, CHR 0xA4, CHR 0x8D, CHR 0xE5, CHR 0x88, CHR 0xB6, CHR 0xE8, CHR 0xB7, CHR 0xAF,
       CHR 0xE5, CHR 0xBE, CHR 0x84]\<close>

definition txt_path_copied :: string where
  \<comment> \<open>line 165 and 186 ("path copied to clipboard!")\<close>
  \<open>txt_path_copied =
     [CHR 0xE8, CHR 0xB7, CHR 0xAF, CHR 0xE5, CHR 0xBE, CHR 0x84, CHR 0xE5, CHR 0xB7, CHR 0xB2,
       CHR 0xE5, CHR 0xA4, CHR 0x8D, CHR 0xE5, CHR 0x88, CHR 0xB6, CHR 0xE5, CHR 0x88,
       CHR 0xB0, CHR 0xE5, CHR 0x89, CHR 0xAA, CHR 0xE8, CHR 0xB4, CHR 0xB4, CHR 0xE6,
       CHR 0x9D, CHR 0xBF, CHR 0xEF, CHR 0xBC, CHR 0x81]\<close>

definition txt_current_file_icon :: string where
  \<comment> \<open>line 175, current-file message with the page glyph\<close>
  \<open>txt_current_file_icon =
     [CHR 0xF0, CHR 0x9F, CHR 0x93, CHR 0x84] @ '' '' @ [CHR 0xE5, CHR 0xBD, CHR 0x93,
       CHR 0xE5, CHR 0x89, CHR 0x8D, CHR 0xE6, CHR 0x96, CHR 0x87, CHR 0xE4, CHR 0xBB,
       CHR 0xB6, CHR 0xE8, CHR 0xB7, CHR 0xAF, CHR 0xE5, CHR 0xBE, CHR 0x84] @ '': ''\<close>

definition txt_current_file :: string where
  \<comment> \<open>line 175, current-file message without glyph\<close>
  \<open>txt_current_file =
     [CHR 0xE5, CHR 0xBD, CHR 0x93, CHR 0xE5, CHR 0x89, CHR 0x8D, CHR 0xE6, CHR 0x96, CHR 0x87,
       CHR 0xE4, CHR 0xBB, CHR 0xB6, CHR 0xE8, CHR 0xB7, CHR 0xAF, CHR 0xE5, CHR 0xBE,
       CHR 0x84] @ '': ''\<close>

definition txt_no_open_file :: string where
  \<comment> \<open>line 191, the warning that there is no open file\<close>
  \<open>txt_no_open_file =
     [CHR 0xE6, CHR 0xB2, CHR 0xA1, CHR 0xE6, CHR 0x9C, CHR 0x89, CHR 0xE6, CHR 0x89, CHR 0x93,
       CHR 0xE5, CHR 0xBC, CHR 0x80, CHR 0xE7, CHR 0x9A, CHR 0x84, CHR 0xE6, CHR 0x96,
       CHR 0x87, CHR 0xE4, CHR 0xBB, CHR 0xB6, CHR 0xE6, CHR 0x88, CHR 0x96, CHR 0xE9,
       CHR 0x80, CHR 0x89, CHR 0xE4, CHR 0xB8, CHR 0xAD, CHR 0xE7, CHR 0x9A, CHR 0x84,
       CHR 0xE6, CHR 0x96, CHR 0x87, CHR 0xE4, CHR 0xBB, CHR 0xB6, CHR 0xE5, CHR 0xA4, CHR 0xB9]\<close>

definition txt_terminal_disabled :: string where
  \<comment> \<open>line 202, the warning that the terminal feature is disabled\<close>
  \<open>txt_terminal_disabled =
     [CHR 0xE5, CHR 0xA4, CHR 0x96, CHR 0xE9, CHR 0x83, CHR 0xA8, CHR 0xE7, CHR 0xBB, CHR 0x88,
       CHR 0xE7, CHR 0xAB, CHR 0xAF, CHR 0xE6, CHR 0x89, CHR 0x93, CHR 0xE5, CHR 0xBC,
       CHR 0x80, CHR 0xE5, CHR 0x8A, CHR 0x9F, CHR 0xE8, CHR 0x83, CHR 0xBD, CHR 0xE5,
       CHR 0xB7, CHR 0xB2, CHR 0xE7, CHR 0xA6, CHR 0x81, CHR 0xE7, CHR 0x94, CHR 0xA8,
       CHR 0xEF, CHR 0xBC, CHR 0x8C, CHR 0xE8, CHR 0xAF, CHR 0xB7, CHR 0xE5, CHR 0x9C,
       CHR 0xA8] @ ''NekoTools'' @ [CHR 0xE8, CHR 0xAE, CHR 0xBE, CHR 0xE7, CHR 0xBD, CHR 0xAE,
       CHR 0xE4, CHR 0xB8, CHR 0xAD, CHR 0xE5, CHR 0x90, CHR 0xAF, CHR 0xE7, CHR 0x94, CHR 0xA8]\<close>

definition txt_no_selection :: string where
  \<comment> \<open>line 217, the warning that nothing is selected\<close>
  \<open>txt_no_selection =
     [CHR 0xE6, CHR 0xB2, CHR 0xA1, CHR 0xE6, CHR 0x9C, CHR 0x89, CHR 0xE9, CHR 0x80, CHR 0x89,
       CHR 0xE4, CHR 0xB8, CHR 0xAD, CHR 0xE7, CHR 0x9A, CHR 0x84, CHR 0xE6, CHR 0x96,
       CHR 0x87, CHR 0xE4, CHR 0xBB, CHR 0xB6, CHR 0xE6, CHR 0x88, CHR 0x96, CHR 0xE6,
       CHR 0x96, CHR 0x87, CHR 0xE4, CHR 0xBB, CHR 0xB6, CHR 0xE5, CHR 0xA4, CHR 0xB9]\<close>

definition txt_configure_custom :: string where
  \<comment> \<open>line 273, the error asking to configure the custom command\<close>
  \<open>txt_configure_custom =
     [CHR 0xE8, CHR 0xAF, CHR 0xB7, CHR 0xE5, CHR 0x9C, CHR 0xA8, CHR 0xE8, CHR 0xAE, CHR 0xBE,
       CHR 0xE7, CHR 0xBD, CHR 0xAE, CHR 0xE4, CHR 0xB8, CHR 0xAD, CHR 0xE9, CHR 0x85,
       CHR 0x8D, CHR 0xE7, CHR 0xBD, CHR 0xAE, CHR 0xE8, CHR 0x87, CHR 0xAA, CHR 0xE5,
       CHR 0xAE, CHR 0x9A, CHR 0xE4, CHR 0xB9, CHR 0x89, CHR 0xE7, CHR 0xBB, CHR 0x88,
       CHR 0xE7, CHR 0xAB, CHR 0xAF, CHR 0xE5, CHR 0x91, CHR 0xBD, CHR 0xE4, CHR 0xBB, CHR 0xA4]\<close>

definition txt_cannot_open :: string where
  \<comment> \<open>line 284, the error that the terminal could not be opened\<close>
  \<open>txt_cannot_open =
     [CHR 0xE6, CHR 0x97, CHR 0xA0, CHR 0xE6, CHR 0xB3, CHR 0x95, CHR 0xE6, CHR 0x89, CHR 0x93,
       CHR 0xE5, CHR 0xBC, CHR 0x80, CHR 0xE5, CHR 0xA4, CHR 0x96, CHR 0xE9, CHR 0x83,
       CHR 0xA8, CHR 0xE7, CHR 0xBB, CHR 0x88, CHR 0xE7, CHR 0xAB, CHR 0xAF] @ '': ''\<close>

definition txt_opened_in :: string where
  \<comment> \<open>line 286 ("opened in external terminal: ")\<close>
  \<open>txt_opened_in =
     [CHR 0xE5, CHR 0xB7, CHR 0xB2, CHR 0xE5, CHR 0x9C, CHR 0xA8, CHR 0xE5, CHR 0xA4, CHR 0x96,
       CHR 0xE9, CHR 0x83, CHR 0xA8, CHR 0xE7, CHR 0xBB, CHR 0x88, CHR 0xE7, CHR 0xAB,
       CHR 0xAF, CHR 0xE4, CHR 0xB8, CHR 0xAD, CHR 0xE6, CHR 0x89, CHR 0x93, CHR 0xE5,
       CHR 0xBC, CHR 0x80] @ '': ''\<close>

definition txt_cannot_access :: string where
  \<comment> \<open>line 290, the error that the path cannot be accessed\<close>
  \<open>txt_cannot_access =
     [CHR 0xE6, CHR 0x97, CHR 0xA0, CHR 0xE6, CHR 0xB3, CHR 0x95, CHR 0xE8, CHR 0xAE, CHR 0xBF,
       CHR 0xE9, CHR 0x97, CHR 0xAE, CHR 0xE6, CHR 0x8C, CHR 0x87, CHR 0xE5, CHR 0xAE,
       CHR 0x9A, CHR 0xE7, CHR 0x9A, CHR 0x84, CHR 0xE8, CHR 0xB7, CHR 0xAF, CHR 0xE5,
       CHR 0xBE, CHR 0x84]\<close>

subsection \<open>The configuration store\<close>

text \<open>
  \<^verbatim>\<open>vscode.workspace.getConfiguration('nekotools')\<close> is a store of JSON values under
  dotted keys. \<open>get\<close> with a default returns the stored value whatever its type (the type
  argument of \<^verbatim>\<open>config.get<boolean>\<close> is erased), and the default passed by the caller
  when the store holds no value for the key (a value the host itself supplies for a key counts
  as stored). Numbers are restricted to integers; arrays and objects are one opaque value.
\<close>

datatype cfgval = VNull | VBool bool | VNum int | VStr string | VObject

type_synonym configuration = \<open>string \<rightharpoonup> cfgval\<close>

definition config_get :: \<open>configuration \<Rightarrow> string \<Rightarrow> cfgval \<Rightarrow> cfgval\<close> where
  \<open>config_get cfg k d = (case cfg k of None \<Rightarrow> d | Some v \<Rightarrow> v)\<close>

text \<open>What \<^verbatim>\<open>if (v)\<close> and \<^verbatim>\<open>!v\<close> test: JavaScript's truthiness.\<close>

fun truthy :: \<open>cfgval \<Rightarrow> bool\<close> where
  \<open>truthy VNull = False\<close>
| \<open>truthy (VBool b) = b\<close>
| \<open>truthy (VNum n) = (n \<noteq> 0)\<close>
| \<open>truthy (VStr s) = (s \<noteq> [])\<close>
| \<open>truthy VObject = True\<close>

subsection \<open>The settings view\<close>

datatype settingType = Boolean | Enum

record SettingItem =
  label :: string
  key :: string
  type :: settingType
  val :: cfgval
  description :: string
  options :: \<open>string list option\<close>

text \<open>\<^verbatim>\<open>getSettings\<close>, lines 55 to 88 (the field \<^verbatim>\<open>value\<close> is \<open>val\<close> here).\<close>

definition getSettings :: \<open>configuration \<Rightarrow> SettingItem list\<close> where
  \<open>getSettings cfg =
    [ \<lparr> label = label_getPath,
        key = ''features.getPathEnabled'',
        type = Boolean,
        val = config_get cfg ''features.getPathEnabled'' (VBool True),
        description = description_getPath,
        options = None \<rparr>,
      \<lparr> label = label_openTerminal,
        key = ''features.openTerminalEnabled'',
        type = Boolean,
        val = config_get cfg ''features.openTerminalEnabled'' (VBool True),
        description = description_openTerminal,
        options = None \<rparr>,
      \<lparr> label = label_showIcons,
        key = ''path.showIcons'',
        type = Boolean,
        val = config_get cfg ''path.showIcons'' (VBool True),
        description = description_showIcons,
        options = None \<rparr>,
      \<lparr> label = label_autoClipboard,
        key = ''path.autoClipboard'',
        type = Boolean,
        val = config_get cfg ''path.autoClipboard'' (VBool False),
        description = description_autoClipboard,
        options = None \<rparr> ]\<close>

text \<open>\<^verbatim>\<open>getChildren\<close>, lines 48 to 53: the settings at the root, nothing below an item.\<close>

definition getChildren :: \<open>configuration \<Rightarrow> SettingItem option \<Rightarrow> SettingItem list\<close> where
  \<open>getChildren cfg element =
     (case element of None \<Rightarrow> getSettings cfg | Some _ \<Rightarrow> [])\<close>

subsection \<open>The host and the observable actions\<close>

datatype uri = Uri (fsPath: string)

text \<open>
  \<^verbatim>\<open>vscode.FileType\<close> is a bit mask: \<open>Unknown = 0\<close>, \<open>File = 1\<close>, \<open>Directory = 2\<close>,
  \<open>SymbolicLink = 64\<close>; JavaScript's \<^verbatim>\<open>&\<close> works on 32-bit integers.
\<close>

definition FileType_File :: \<open>32 word\<close> where \<open>FileType_File = 1\<close>
definition FileType_Directory :: \<open>32 word\<close> where \<open>FileType_Directory = 2\<close>
definition FileType_SymbolicLink :: \<open>32 word\<close> where \<open>FileType_SymbolicLink = 64\<close>

text \<open>
  What the handlers ask of the host. \<open>stat\<close> is \<^verbatim>\<open>vscode.workspace.fs.stat\<close>: the type
  bits of the target, or \<open>None\<close> when the promise rejects. \<open>dirname\<close> is Node's
  \<^verbatim>\<open>path.dirname\<close> of the platform. \<open>pick\<close> is the user's answer to an information
  message shown with items: the chosen item, or \<open>None\<close> when the message is dismissed.
  \<open>execError\<close> is the outcome of \<^verbatim>\<open>child_process.exec\<close> on a command: \<open>None\<close> on
  success, the error's message on failure.
\<close>

record host =
  platform :: string
  activeTextEditor :: \<open>uri option\<close>
  stat :: \<open>uri \<Rightarrow> 32 word option\<close>
  dirname :: \<open>string \<Rightarrow> string\<close>
  pick :: \<open>string \<Rightarrow> string list \<Rightarrow> string option\<close>
  execError :: \<open>string \<Rightarrow> string option\<close>

datatype event =
    ShowInformationMessage string \<open>string list\<close>
  | ShowWarningMessage string
  | ShowErrorMessage string
  | ClipboardWriteText string
  | ConfigUpdateGlobal string cfgval
  | FsStat uri
  | Exec string
  | Refresh
  | UnhandledRejection

text \<open>
  The state an invocation can change: the configuration store, the clipboard, and the trace
  of the actions performed so far.
\<close>

record world =
  config :: configuration
  clipboard :: string
  trace :: \<open>event list\<close>

definition emit :: \<open>event \<Rightarrow> world \<Rightarrow> world\<close> where
  \<open>emit e w = w\<lparr>trace := trace w @ [e]\<rparr>\<close>

definition writeText :: \<open>string \<Rightarrow> world \<Rightarrow> world\<close> where
  \<open>writeText t w = emit (ClipboardWriteText t) (w\<lparr>clipboard := t\<rparr>)\<close>

definition update :: \<open>string \<Rightarrow> cfgval \<Rightarrow> world \<Rightarrow> world\<close> where
  \<open>update k v w = emit (ConfigUpdateGlobal k v) (w\<lparr>config := (config w)(k \<mapsto> v)\<rparr>)\<close>

subsection \<open>The toggle command\<close>

text \<open>
  \<^verbatim>\<open>nekotools.toggleFeature\<close>, lines 109 to 115. The write is taken to succeed and to
  be what the next read of the key sees (no other configuration scope overrides it).
\<close>

definition toggleFeature :: \<open>string \<Rightarrow> world \<Rightarrow> world\<close> where
  \<open>toggleFeature configKey w =
     (let currentValue = config_get (config w) configKey (VBool True);
          w1 = update configKey (VBool (\<not> truthy currentValue)) w;
          w2 = emit Refresh w1
      in emit (ShowInformationMessage
                 (txt_feature @ configKey @ txt_already @
                    (if \<not> truthy currentValue then txt_enabled else txt_disabled)) []) w2)\<close>

subsection \<open>The path command\<close>

text \<open>
  Lines 156 to 168, and again lines 177 to 189: copy at once and confirm, or show the message
  with the copy action and copy when the user picks it.
\<close>

definition copyOrOffer :: \<open>host \<Rightarrow> cfgval \<Rightarrow> string \<Rightarrow> string \<Rightarrow> world \<Rightarrow> world\<close> where
  \<open>copyOrOffer h autoClipboard displayMessage filePath w =
     (if truthy autoClipboard then
        emit (ShowInformationMessage (displayMessage @ txt_copied_suffix) [])
          (writeText filePath w)
      else
        (let w1 = emit (ShowInformationMessage displayMessage [txt_copy_path]) w in
         if pick h displayMessage [txt_copy_path] = Some txt_copy_path then
           emit (ShowInformationMessage txt_path_copied []) (writeText filePath w1)
         else w1))\<close>

text \<open>
  \<^verbatim>\<open>nekotools.getCurrentFilePath\<close>, lines 127 to 194. The promise of line 145 has no
  rejection handler: a failed file-type query ends the invocation as an unhandled rejection.
\<close>

definition getCurrentFilePath :: \<open>host \<Rightarrow> uri option \<Rightarrow> world \<Rightarrow> world\<close> where
  \<open>getCurrentFilePath h uri w =
     (let isEnabled = config_get (config w) ''features.getPathEnabled'' (VBool False) in
      if \<not> truthy isEnabled then emit (ShowWarningMessage txt_getPath_disabled) w
      else
        (let showIcons = config_get (config w) ''path.showIcons'' (VBool True);
             autoClipboard = config_get (config w) ''path.autoClipboard'' (VBool True)
         in case uri of
              Some u \<Rightarrow>
                (let filePath = fsPath u;
                     w1 = emit (FsStat u) w
                 in case stat h u of
                      None \<Rightarrow> emit UnhandledRejection w1
                    | Some t \<Rightarrow>
                        (let isDir = (t AND FileType_Directory \<noteq> 0);
                             displayMessage =
                               (if isDir then
                                  (if truthy showIcons then txt_folder_icon @ filePath
                                   else txt_folder @ filePath)
                                else
                                  (if truthy showIcons then txt_file_icon @ filePath
                                   else txt_file @ filePath))
                         in copyOrOffer h autoClipboard displayMessage filePath w1))
            | None \<Rightarrow>
                (case activeTextEditor h of
                   Some d \<Rightarrow>
                     (let filePath = fsPath d;
                          displayMessage =
                            (if truthy showIcons then txt_current_file_icon @ filePath
                             else txt_current_file @ filePath)
                      in copyOrOffer h autoClipboard displayMessage filePath w)
                 | None \<Rightarrow> emit (ShowWarningMessage txt_no_open_file) w)))\<close>

subsection \<open>String replacement\<close>

text \<open>
  \<^verbatim>\<open>String.prototype.replace\<close> with a string pattern and a string replacement
  (ECMAScript, 22.1.3.19 and GetSubstitution): the first occurrence of the pattern is
  replaced, and in the replacement \<^verbatim>\<open>$$\<close> stands for a dollar sign, \<^verbatim>\<open>$&\<close> for the
  matched text, \<^verbatim>\<open>$`\<close> for the text before the match and \<^verbatim>\<open>$'\<close> for the text after
  it. A string pattern has no capture groups, so every other character, a dollar sign before
  a digit or \<^verbatim>\<open><\<close> included, stands for itself.
\<close>

fun splitAtFirst :: \<open>string \<Rightarrow> string \<Rightarrow> (string \<times> string) option\<close> where
  \<open>splitAtFirst pat [] = (if pat = [] then Some ([], []) else None)\<close>
| \<open>splitAtFirst pat (c # cs) =
     (if take (length pat) (c # cs) = pat then Some ([], drop (length pat) (c # cs))
      else (case splitAtFirst pat cs of
              None \<Rightarrow> None
            | Some (preceding, following) \<Rightarrow> Some (c # preceding, following)))\<close>

fun getSubstitution :: \<open>string \<Rightarrow> string \<Rightarrow> string \<Rightarrow> string \<Rightarrow> string\<close> where
  \<open>getSubstitution matched preceding following [] = []\<close>
| \<open>getSubstitution matched preceding following [c] = [c]\<close>
| \<open>getSubstitution matched preceding following (c # d # rest) =
     (if c = CHR ''$'' \<and> d = CHR ''$'' then
        CHR ''$'' # getSubstitution matched preceding following rest
      else if c = CHR ''$'' \<and> d = CHR 0x60 then
        preceding @ getSubstitution matched preceding following rest
      else if c = CHR ''$'' \<and> d = CHR ''&'' then
        matched @ getSubstitution matched preceding following rest
      else if c = CHR ''$'' \<and> d = CHR 0x27 then
        following @ getSubstitution matched preceding following rest
      else c # getSubstitution matched preceding following (d # rest))\<close>

definition replace :: \<open>string \<Rightarrow> string \<Rightarrow> string \<Rightarrow> string\<close> where
  \<open>replace s searchValue replaceValue =
     (case splitAtFirst searchValue s of
        None \<Rightarrow> s
      | Some (preceding, following) \<Rightarrow>
          preceding @ getSubstitution searchValue preceding following replaceValue @
          following)\<close>

subsection \<open>The terminal command\<close>

text \<open>
  Lines 233 to 280: the command for the platform (\<open>os\<close> is \<^verbatim>\<open>process.platform\<close>) and the
  configured terminal. A
  \<^verbatim>\<open>switch\<close> compares with \<^verbatim>\<open>===\<close>, so a value that is not one of the strings
  takes the default case. In the custom case, a command that is truthy but not a string has
  no \<^verbatim>\<open>replace\<close> method and the call throws a TypeError.
\<close>

datatype built = Command string | MissingCustomCommand | TypeError

definition buildCommand :: \<open>string \<Rightarrow> configuration \<Rightarrow> string \<Rightarrow> built\<close> where
  \<open>buildCommand os cfg terminalPath =
     (if os = ''win32'' then
        (let windowsTerminal = config_get cfg ''terminal.windows'' (VStr ''wt'') in
         if windowsTerminal = VStr ''wt'' then
           Command (''wt -d "'' @ terminalPath @ ''"'')
         else if windowsTerminal = VStr ''cmd'' then
           Command (''start cmd /k "cd /d "'' @ terminalPath @ ''""'')
         else if windowsTerminal = VStr ''powershell'' then
           Command (''start powershell -NoExit -Command "Set-Location '' @ [CHR 0x27] @
                    terminalPath @ [CHR 0x27] @ ''"'')
         else
           Command (''wt -d "'' @ terminalPath @ ''" || start cmd /k "cd /d "'' @
                    terminalPath @ ''""''))
      else if os = ''darwin'' then
        Command (''open -a Terminal "'' @ terminalPath @ ''"'')
      else
        (let linuxTerminal = config_get cfg ''terminal.linux'' (VStr ''gnome-terminal'');
             customCommand = config_get cfg ''terminal.customCommand'' (VStr '''')
         in
         if linuxTerminal = VStr ''gnome-terminal'' then
           Command (''gnome-terminal --working-directory="'' @ terminalPath @ ''"'')
         else if linuxTerminal = VStr ''xterm'' then
           Command (''xterm -e "cd '' @ [CHR 0x27] @ terminalPath @ [CHR 0x27] @ ''; bash"'')
         else if linuxTerminal = VStr ''konsole'' then
           Command (''konsole --workdir "'' @ terminalPath @ ''"'')
         else if linuxTerminal = VStr ''custom'' then
           (if truthy customCommand then
              (case customCommand of
                 VStr template \<Rightarrow> Command (replace template ''{path}'' terminalPath)
               | _ \<Rightarrow> TypeError)
            else MissingCustomCommand)
         else
           Command (''gnome-terminal --working-directory="'' @ terminalPath @
                    ''" || xterm -e "cd '' @ [CHR 0x27] @ terminalPath @ [CHR 0x27] @
                    ''; bash" || konsole --workdir "'' @ terminalPath @ ''"'')))\<close>

text \<open>
  \<^verbatim>\<open>nekotools.openInExternalTerminal\<close>, lines 197 to 292. The rejection handler of
  line 289 is the second argument of the same \<^verbatim>\<open>then\<close>: it answers a failed file-type
  query, not an exception thrown while the command is built.
\<close>

definition openInExternalTerminal :: \<open>host \<Rightarrow> uri option \<Rightarrow> world \<Rightarrow> world\<close> where
  \<open>openInExternalTerminal h uri w =
     (let isEnabled = config_get (config w) ''features.openTerminalEnabled'' (VBool False) in
      if \<not> truthy isEnabled then emit (ShowWarningMessage txt_terminal_disabled) w
      else
        (case (case uri of
                 Some u \<Rightarrow> Some (fsPath u)
               | None \<Rightarrow> map_option fsPath (activeTextEditor h)) of
           None \<Rightarrow> emit (ShowWarningMessage txt_no_selection) w
         | Some targetPath \<Rightarrow>
             (let fileUri = (case uri of Some u \<Rightarrow> u | None \<Rightarrow> Uri targetPath);
                  w1 = emit (FsStat fileUri) w
              in case stat h fileUri of
                   None \<Rightarrow> emit (ShowErrorMessage txt_cannot_access) w1
                 | Some t \<Rightarrow>
                     (let terminalPath =
                            (if t AND FileType_Directory = 0 then dirname h targetPath
                             else targetPath)
                      in case buildCommand (platform h) (config w) terminalPath of
                           MissingCustomCommand \<Rightarrow>
                             emit (ShowErrorMessage txt_configure_custom) w1
                         | TypeError \<Rightarrow> emit UnhandledRejection w1
                         | Command command \<Rightarrow>
                             (let w2 = emit (Exec command) w1 in
                              case execError h command of
                                Some message \<Rightarrow>
                                  emit (ShowErrorMessage (txt_cannot_open @ message)) w2
                              | None \<Rightarrow>
                                  emit (ShowInformationMessage
                                          (txt_opened_in @ terminalPath) []) w2)))))\<close>

subsection \<open>Example inputs\<close>

text \<open>
  Two hosts and a few stores on which the theorems below are instantiated: a Linux host whose
  file system holds the file \<^verbatim>\<open>/home/u/notes.txt\<close> in the directory \<^verbatim>\<open>/home/u\<close>,
  with no editor open and a user who dismisses every message, and a Windows host with the file
  \<^verbatim>\<open>c:/work/a.txt\<close> open in the editor.
\<close>

definition linux_host :: host where
  \<open>linux_host =
     \<lparr> platform = ''linux'',
       activeTextEditor = None,
       stat = (\<lambda>u. if u = Uri ''/home/u/notes.txt'' then Some FileType_File
                   else if u = Uri ''/home/u'' then Some FileType_Directory
                   else None),
       dirname = (\<lambda>p. if p = ''/home/u/notes.txt'' then ''/home/u'' else ''/''),
       pick = (\<lambda>message items. None),
       execError = (\<lambda>command. None) \<rparr>\<close>

definition windows_host :: host where
  \<open>windows_host =
     \<lparr> platform = ''win32'',
       activeTextEditor = Some (Uri ''c:/work/a.txt''),
       stat = (\<lambda>u. if u = Uri ''c:/work/a.txt'' then Some FileType_File
                   else if u = Uri ''c:/work'' then Some FileType_Directory
                   else None),
       dirname = (\<lambda>p. if p = ''c:/work/a.txt'' then ''c:/work'' else ''c:/''),
       pick = (\<lambda>message items. None),
       execError = (\<lambda>command. None) \<rparr>\<close>

definition fresh :: \<open>configuration \<Rightarrow> world\<close> where
  \<open>fresh cfg = \<lparr> config = cfg, clipboard = [], trace = [] \<rparr>\<close>

section \<open>Properties\<close>

subsection \<open>Settings view\<close>

text \<open>
  C3. For every state of the configuration store, the settings view lists exactly the four
  settings \<^verbatim>\<open>features.getPathEnabled\<close>, \<^verbatim>\<open>features.openTerminalEnabled\<close>,
  \<^verbatim>\<open>path.showIcons\<close>, \<^verbatim>\<open>path.autoClipboard\<close>, in this order, each with the value the
  store holds for its key, and with true, true, true, false where the store holds none.
  The view's root (\<open>getChildren\<close> without an element) is that list.
\<close>

theorem getSettings_fixed_order_and_values:
  \<open>map (\<lambda>s. (key s, val s)) (getSettings cfg) =
     [ (''features.getPathEnabled'',
          case cfg ''features.getPathEnabled'' of None \<Rightarrow> VBool True | Some v \<Rightarrow> v),
       (''features.openTerminalEnabled'',
          case cfg ''features.openTerminalEnabled'' of None \<Rightarrow> VBool True | Some v \<Rightarrow> v),
       (''path.showIcons'',
          case cfg ''path.showIcons'' of None \<Rightarrow> VBool True | Some v \<Rightarrow> v),
       (''path.autoClipboard'',
          case cfg ''path.autoClipboard'' of None \<Rightarrow> VBool False | Some v \<Rightarrow> v) ]
   \<and> getChildren cfg None = getSettings cfg\<close>
  by (simp add: getSettings_def getChildren_def config_get_def)

text \<open>
  C4. For a key that holds a boolean, or holds nothing and so reads as true, one toggle stores
  the negation of the value read and a second toggle stores the value read at first: toggling
  twice gives back the original value.
\<close>

theorem toggleFeature_involution:
  assumes \<open>config_get (config w) k (VBool True) = VBool b\<close>
  shows \<open>config (toggleFeature k w) k = Some (VBool (\<not> b))
       \<and> config_get (config (toggleFeature k w)) k (VBool True) = VBool (\<not> b)
       \<and> config (toggleFeature k (toggleFeature k w)) k = Some (VBool b)
       \<and> config_get (config (toggleFeature k (toggleFeature k w))) k (VBool True) = VBool b\<close>
proof -
  have once: \<open>config (toggleFeature k v) k =
                Some (VBool (\<not> truthy (config_get (config v) k (VBool True))))\<close> for v
    by (simp add: toggleFeature_def update_def emit_def Let_def)
  have first: \<open>config (toggleFeature k w) k = Some (VBool (\<not> b))\<close>
    using once [of w] assms by simp
  have second: \<open>config (toggleFeature k (toggleFeature k w)) k = Some (VBool b)\<close>
    using once [of \<open>toggleFeature k w\<close>] first by (simp add: config_get_def)
  show ?thesis
    using first second by (simp add: config_get_def)
qed

theorem toggleFeature_involution_witness:
  \<open>config_get (config (fresh Map.empty)) ''path.showIcons'' (VBool True) = VBool True
   \<and> config (toggleFeature ''path.showIcons'' (fresh Map.empty)) ''path.showIcons'' =
       Some (VBool False)
   \<and> config (toggleFeature ''path.showIcons''
        (toggleFeature ''path.showIcons'' (fresh Map.empty))) ''path.showIcons'' =
       Some (VBool True)\<close>
proof -
  have h: \<open>config_get (config (fresh Map.empty)) ''path.showIcons'' (VBool True) = VBool True\<close>
    by (simp add: fresh_def config_get_def)
  show ?thesis
    using h toggleFeature_involution [OF h] by simp
qed

subsection \<open>Path command\<close>

text \<open>
  C5. Whatever the context (a reference or none), when \<^verbatim>\<open>features.getPathEnabled\<close> is
  false the path command shows the disabled warning and does nothing else: the trace grows by
  that one warning (no file-type query, no clipboard write, no other notification), and the
  clipboard and the configuration store stay as they were.
\<close>

theorem getCurrentFilePath_disabled:
  assumes \<open>config w ''features.getPathEnabled'' = Some (VBool False)\<close>
  shows \<open>getCurrentFilePath h uri w =
           w\<lparr>trace := trace w @ [ShowWarningMessage txt_getPath_disabled]\<rparr>\<close>
  using assms by (simp add: getCurrentFilePath_def config_get_def emit_def)

theorem getCurrentFilePath_disabled_witness:
  \<open>config (fresh [''features.getPathEnabled'' \<mapsto> VBool False]) ''features.getPathEnabled'' =
     Some (VBool False)
   \<and> getCurrentFilePath linux_host (Some (Uri ''/home/u/notes.txt''))
       (fresh [''features.getPathEnabled'' \<mapsto> VBool False]) =
     \<lparr> config = [''features.getPathEnabled'' \<mapsto> VBool False], clipboard = [],
       trace = [ShowWarningMessage txt_getPath_disabled] \<rparr>
   \<and> getCurrentFilePath windows_host None
       (fresh [''features.getPathEnabled'' \<mapsto> VBool False]) =
     \<lparr> config = [''features.getPathEnabled'' \<mapsto> VBool False], clipboard = [],
       trace = [ShowWarningMessage txt_getPath_disabled] \<rparr>\<close>
proof -
  have h: \<open>config (fresh [''features.getPathEnabled'' \<mapsto> VBool False])
             ''features.getPathEnabled'' = Some (VBool False)\<close>
    by (simp add: fresh_def)
  show ?thesis
    using h
      getCurrentFilePath_disabled [OF h, of linux_host \<open>Some (Uri ''/home/u/notes.txt'')\<close>]
      getCurrentFilePath_disabled [OF h, of windows_host None]
    by (simp add: fresh_def)
qed

text \<open>
  C9. Invoked without a context reference while a document is active (and the feature is
  enabled), the path command never asks for the file type: the outcome does not depend on what
  the file-type query would answer, the trace holds no query, and the message is the
  current-file text followed by the document's path, which no folder message equals. The
  rest is the copy policy: copy at once and confirm, or offer the copy action.
\<close>

theorem getCurrentFilePath_active_document_no_stat:
  assumes \<open>truthy (config_get (config w) ''features.getPathEnabled'' (VBool False))\<close>
    and \<open>activeTextEditor h = Some d\<close>
    and \<open>m = (if truthy (config_get (config w) ''path.showIcons'' (VBool True))
              then txt_current_file_icon else txt_current_file) @ fsPath d\<close>
  shows \<open>getCurrentFilePath h None w =
           (if truthy (config_get (config w) ''path.autoClipboard'' (VBool True)) then
              w\<lparr>clipboard := fsPath d,
                trace := trace w @
                  [ClipboardWriteText (fsPath d),
                   ShowInformationMessage (m @ txt_copied_suffix) []]\<rparr>
            else if pick h m [txt_copy_path] = Some txt_copy_path then
              w\<lparr>clipboard := fsPath d,
                trace := trace w @
                  [ShowInformationMessage m [txt_copy_path],
                   ClipboardWriteText (fsPath d),
                   ShowInformationMessage txt_path_copied []]\<rparr>
            else
              w\<lparr>trace := trace w @ [ShowInformationMessage m [txt_copy_path]]\<rparr>)
         \<and> getCurrentFilePath (h\<lparr>stat := answer\<rparr>) None w = getCurrentFilePath h None w
         \<and> m \<noteq> txt_folder_icon @ q \<and> m \<noteq> txt_folder @ q\<close>
proof -
  have shape: \<open>m \<noteq> txt_folder_icon @ q \<and> m \<noteq> txt_folder @ q\<close>
    using assms(3)
    by (simp add: txt_current_file_icon_def txt_current_file_def txt_folder_icon_def
        txt_folder_def)
  have run: \<open>getCurrentFilePath g None w =
               copyOrOffer g (config_get (config w) ''path.autoClipboard'' (VBool True)) m
                 (fsPath d) w\<close>
    if \<open>activeTextEditor g = Some d\<close> for g
    using assms(1,3) that by (simp add: getCurrentFilePath_def Let_def)
  have same: \<open>getCurrentFilePath (h\<lparr>stat := answer\<rparr>) None w = getCurrentFilePath h None w\<close>
    using run [of h] run [of \<open>h\<lparr>stat := answer\<rparr>\<close>] assms(2)
    by (simp add: copyOrOffer_def)
  have outcome: \<open>getCurrentFilePath h None w =
           (if truthy (config_get (config w) ''path.autoClipboard'' (VBool True)) then
              w\<lparr>clipboard := fsPath d,
                trace := trace w @
                  [ClipboardWriteText (fsPath d),
                   ShowInformationMessage (m @ txt_copied_suffix) []]\<rparr>
            else if pick h m [txt_copy_path] = Some txt_copy_path then
              w\<lparr>clipboard := fsPath d,
                trace := trace w @
                  [ShowInformationMessage m [txt_copy_path],
                   ClipboardWriteText (fsPath d),
                   ShowInformationMessage txt_path_copied []]\<rparr>
            else
              w\<lparr>trace := trace w @ [ShowInformationMessage m [txt_copy_path]]\<rparr>)\<close>
    using run [OF assms(2)]
    by (simp add: copyOrOffer_def writeText_def emit_def Let_def)
  show ?thesis
    using outcome same shape by simp
qed

theorem getCurrentFilePath_active_document_no_stat_witness:
  \<open>truthy (config_get
       (config (fresh [''features.getPathEnabled'' \<mapsto> VBool True,
                       ''path.autoClipboard'' \<mapsto> VBool False]))
       ''features.getPathEnabled'' (VBool False))
   \<and> activeTextEditor (linux_host\<lparr>activeTextEditor := Some (Uri ''/home/u'')\<rparr>) =
       Some (Uri ''/home/u'')
   \<and> stat (linux_host\<lparr>activeTextEditor := Some (Uri ''/home/u'')\<rparr>) (Uri ''/home/u'') =
       Some FileType_Directory
   \<and> getCurrentFilePath (linux_host\<lparr>activeTextEditor := Some (Uri ''/home/u'')\<rparr>) None
       (fresh [''features.getPathEnabled'' \<mapsto> VBool True,
               ''path.autoClipboard'' \<mapsto> VBool False]) =
     \<lparr> config = [''features.getPathEnabled'' \<mapsto> VBool True,
                  ''path.autoClipboard'' \<mapsto> VBool False],
       clipboard = [],
       trace = [ShowInformationMessage (txt_current_file_icon @ ''/home/u'')
                  [txt_copy_path]] \<rparr>\<close>
proof -
  let ?h = \<open>linux_host\<lparr>activeTextEditor := Some (Uri ''/home/u'')\<rparr>\<close>
  let ?w = \<open>fresh [''features.getPathEnabled'' \<mapsto> VBool True,
                   ''path.autoClipboard'' \<mapsto> VBool False]\<close>
  have enabled: \<open>truthy (config_get (config ?w) ''features.getPathEnabled'' (VBool False))\<close>
    by (simp add: fresh_def config_get_def)
  have active: \<open>activeTextEditor ?h = Some (Uri ''/home/u'')\<close>
    by simp
  have directory: \<open>stat ?h (Uri ''/home/u'') = Some FileType_Directory\<close>
    by (simp add: linux_host_def)
  have message: \<open>txt_current_file_icon @ ''/home/u'' =
      (if truthy (config_get (config ?w) ''path.showIcons'' (VBool True))
       then txt_current_file_icon else txt_current_file) @ fsPath (Uri ''/home/u'')\<close>
    by (simp add: fresh_def config_get_def)
  show ?thesis
    using enabled directory
      getCurrentFilePath_active_document_no_stat [OF enabled active message]
    by (simp add: fresh_def config_get_def linux_host_def)
qed

subsection \<open>Terminal command\<close>

text \<open>
  C6. On Windows with \<^verbatim>\<open>terminal.windows\<close> set to \<^verbatim>\<open>cmd\<close>, the feature enabled and a
  context (the reference, or the active document when there is no reference) that the
  file-type query does not classify as a directory, the command handed to the shell is exactly
  \<^verbatim>\<open>start cmd /k "cd /d "<parentDir>""\<close>, where \<^verbatim>\<open><parentDir>\<close> is \<^verbatim>\<open>path.dirname\<close> of
  the target's path; the invocation then reports how the spawn ended.
\<close>

theorem openInExternalTerminal_windows_cmd_file:
  assumes \<open>truthy (config_get (config w) ''features.openTerminalEnabled'' (VBool False))\<close>
    and \<open>platform h = ''win32''\<close>
    and \<open>config w ''terminal.windows'' = Some (VStr ''cmd'')\<close>
    and \<open>uri = Some u \<or> uri = None \<and> activeTextEditor h = Some u\<close>
    and \<open>stat h u = Some t\<close>
    and \<open>t AND FileType_Directory = 0\<close>
    and \<open>command = ''start cmd /k "cd /d "'' @ dirname h (fsPath u) @ ''""''\<close>
  shows \<open>buildCommand (platform h) (config w) (dirname h (fsPath u)) = Command command
       \<and> openInExternalTerminal h uri w =
           w\<lparr>trace := trace w @
               [FsStat u, Exec command,
                case execError h command of
                  Some message \<Rightarrow> ShowErrorMessage (txt_cannot_open @ message)
                | None \<Rightarrow>
                    ShowInformationMessage (txt_opened_in @ dirname h (fsPath u)) []]\<rparr>\<close>
proof -
  have built: \<open>buildCommand (platform h) (config w) (dirname h (fsPath u)) = Command command\<close>
    using assms(2,3,7) by (simp add: buildCommand_def config_get_def)
  have run: \<open>openInExternalTerminal h uri w =
           w\<lparr>trace := trace w @
               [FsStat u, Exec command,
                case execError h command of
                  Some message \<Rightarrow> ShowErrorMessage (txt_cannot_open @ message)
                | None \<Rightarrow>
                    ShowInformationMessage (txt_opened_in @ dirname h (fsPath u)) []]\<rparr>\<close>
    using assms(4)
  proof
    assume \<open>uri = Some u\<close>
    then show ?thesis
      using assms(1,5,6) built
      by (simp add: openInExternalTerminal_def emit_def Let_def split: option.split)
  next
    assume \<open>uri = None \<and> activeTextEditor h = Some u\<close>
    then show ?thesis
      using assms(1,5,6) built
      by (simp add: openInExternalTerminal_def emit_def Let_def split: option.split)
  qed
  show ?thesis
    using built run by simp
qed

theorem openInExternalTerminal_windows_cmd_file_witness:
  \<open>stat windows_host (Uri ''c:/work/a.txt'') = Some FileType_File
   \<and> FileType_File AND FileType_Directory = 0
   \<and> openInExternalTerminal windows_host None
       (fresh [''features.openTerminalEnabled'' \<mapsto> VBool True,
               ''terminal.windows'' \<mapsto> VStr ''cmd'']) =
     \<lparr> config = [''features.openTerminalEnabled'' \<mapsto> VBool True,
                  ''terminal.windows'' \<mapsto> VStr ''cmd''],
       clipboard = [],
       trace = [FsStat (Uri ''c:/work/a.txt''),
                Exec ''start cmd /k "cd /d "c:/work""'',
                ShowInformationMessage (txt_opened_in @ ''c:/work'') []] \<rparr>\<close>
proof -
  let ?w = \<open>fresh [''features.openTerminalEnabled'' \<mapsto> VBool True,
                   ''terminal.windows'' \<mapsto> VStr ''cmd'']\<close>
  have enabled:
    \<open>truthy (config_get (config ?w) ''features.openTerminalEnabled'' (VBool False))\<close>
    by (simp add: fresh_def config_get_def)
  have os: \<open>platform windows_host = ''win32''\<close>
    by (simp add: windows_host_def)
  have cmd: \<open>config ?w ''terminal.windows'' = Some (VStr ''cmd'')\<close>
    by (simp add: fresh_def)
  have target: \<open>(None :: uri option) = Some (Uri ''c:/work/a.txt'') \<or>
      (None :: uri option) = None \<and>
      activeTextEditor windows_host = Some (Uri ''c:/work/a.txt'')\<close>
    by (simp add: windows_host_def)
  have is_file: \<open>stat windows_host (Uri ''c:/work/a.txt'') = Some FileType_File\<close>
    by (simp add: windows_host_def)
  have not_dir: \<open>FileType_File AND FileType_Directory = 0\<close>
    by (simp add: FileType_File_def FileType_Directory_def)
  show ?thesis
    using is_file not_dir
      openInExternalTerminal_windows_cmd_file [OF enabled os cmd target is_file not_dir refl]
    by (simp add: fresh_def windows_host_def)
qed

text \<open>
  C7. On Linux with \<^verbatim>\<open>terminal.linux\<close> set to \<^verbatim>\<open>custom\<close> and
  \<^verbatim>\<open>terminal.customCommand\<close> the empty string, the terminal command (feature enabled,
  target found and its type query answered) shows the error asking to configure the custom
  command and spawns nothing: after the type query the trace holds that error alone.
\<close>

theorem openInExternalTerminal_custom_without_template:
  assumes \<open>truthy (config_get (config w) ''features.openTerminalEnabled'' (VBool False))\<close>
    and \<open>platform h = ''linux''\<close>
    and \<open>config w ''terminal.linux'' = Some (VStr ''custom'')\<close>
    and \<open>config w ''terminal.customCommand'' = Some (VStr '''')\<close>
    and \<open>uri = Some u \<or> uri = None \<and> activeTextEditor h = Some u\<close>
    and \<open>stat h u = Some t\<close>
  shows \<open>openInExternalTerminal h uri w =
           w\<lparr>trace := trace w @ [FsStat u, ShowErrorMessage txt_configure_custom]\<rparr>\<close>
proof -
  have built: \<open>buildCommand (platform h) (config w) p = MissingCustomCommand\<close> for p
    using assms(2,3,4) by (simp add: buildCommand_def config_get_def)
  from assms(5) show ?thesis
  proof
    assume \<open>uri = Some u\<close>
    then show ?thesis
      using assms(1,6) built
      by (simp add: openInExternalTerminal_def emit_def Let_def)
  next
    assume \<open>uri = None \<and> activeTextEditor h = Some u\<close>
    then show ?thesis
      using assms(1,6) built
      by (simp add: openInExternalTerminal_def emit_def Let_def)
  qed
qed

theorem openInExternalTerminal_custom_without_template_witness:
  \<open>stat linux_host (Uri ''/home/u/notes.txt'') = Some FileType_File
   \<and> openInExternalTerminal linux_host (Some (Uri ''/home/u/notes.txt''))
       (fresh [''features.openTerminalEnabled'' \<mapsto> VBool True,
               ''terminal.linux'' \<mapsto> VStr ''custom'',
               ''terminal.customCommand'' \<mapsto> VStr '''']) =
     \<lparr> config = [''features.openTerminalEnabled'' \<mapsto> VBool True,
                  ''terminal.linux'' \<mapsto> VStr ''custom'',
                  ''terminal.customCommand'' \<mapsto> VStr ''''],
       clipboard = [],
       trace = [FsStat (Uri ''/home/u/notes.txt''),
                ShowErrorMessage txt_configure_custom] \<rparr>\<close>
proof -
  let ?w = \<open>fresh [''features.openTerminalEnabled'' \<mapsto> VBool True,
                   ''terminal.linux'' \<mapsto> VStr ''custom'',
                   ''terminal.customCommand'' \<mapsto> VStr '''']\<close>
  let ?u = \<open>Uri ''/home/u/notes.txt''\<close>
  have enabled:
    \<open>truthy (config_get (config ?w) ''features.openTerminalEnabled'' (VBool False))\<close>
    by (simp add: fresh_def config_get_def)
  have os: \<open>platform linux_host = ''linux''\<close>
    by (simp add: linux_host_def)
  have custom: \<open>config ?w ''terminal.linux'' = Some (VStr ''custom'')\<close>
    by (simp add: fresh_def)
  have template: \<open>config ?w ''terminal.customCommand'' = Some (VStr '''')\<close>
    by (simp add: fresh_def)
  have target: \<open>Some ?u = Some ?u \<or> Some ?u = None \<and> activeTextEditor linux_host = Some ?u\<close>
    by simp
  have answered: \<open>stat linux_host ?u = Some FileType_File\<close>
    by (simp add: linux_host_def)
  show ?thesis
    using answered
      openInExternalTerminal_custom_without_template
        [OF enabled os custom template target answered]
    by (simp add: fresh_def)
qed

text \<open>
  C8. In the terminal command (feature enabled), whatever the target, when the file-type query
  fails the error that the path cannot be accessed is shown and the invocation ends there: the
  trace grows by the query and that error, so no command is handed to the shell, and the
  clipboard and the configuration store stay as they were.
\<close>

theorem openInExternalTerminal_stat_failure:
  assumes \<open>truthy (config_get (config w) ''features.openTerminalEnabled'' (VBool False))\<close>
    and \<open>uri = Some u \<or> uri = None \<and> activeTextEditor h = Some u\<close>
    and \<open>stat h u = None\<close>
  shows \<open>openInExternalTerminal h uri w =
           w\<lparr>trace := trace w @ [FsStat u, ShowErrorMessage txt_cannot_access]\<rparr>\<close>
  using assms by (auto simp add: openInExternalTerminal_def emit_def Let_def)

theorem openInExternalTerminal_stat_failure_witness:
  \<open>stat linux_host (Uri ''/home/u/gone.txt'') = None
   \<and> openInExternalTerminal linux_host (Some (Uri ''/home/u/gone.txt''))
       (fresh [''features.openTerminalEnabled'' \<mapsto> VBool True]) =
     \<lparr> config = [''features.openTerminalEnabled'' \<mapsto> VBool True],
       clipboard = [],
       trace = [FsStat (Uri ''/home/u/gone.txt''), ShowErrorMessage txt_cannot_access] \<rparr>\<close>
proof -
  let ?w = \<open>fresh [''features.openTerminalEnabled'' \<mapsto> VBool True]\<close>
  let ?u = \<open>Uri ''/home/u/gone.txt''\<close>
  have enabled:
    \<open>truthy (config_get (config ?w) ''features.openTerminalEnabled'' (VBool False))\<close>
    by (simp add: fresh_def config_get_def)
  have target: \<open>Some ?u = Some ?u \<or> Some ?u = None \<and> activeTextEditor linux_host = Some ?u\<close>
    by simp
  have rejected: \<open>stat linux_host ?u = None\<close>
    by (simp add: linux_host_def)
  show ?thesis
    using rejected openInExternalTerminal_stat_failure [OF enabled target rejected]
    by (simp add: fresh_def)
qed

subsection \<open>Defaults read by the commands\<close>

text \<open>
  C1. The claim: when \<^verbatim>\<open>features.getPathEnabled\<close> and \<^verbatim>\<open>features.openTerminalEnabled\<close>
  are absent from the store, the two commands take the feature as enabled and go on. The
  code, at the empty store: lines 129 and 199 read the keys with the default false, so both
  commands show the disabled warning and stop, for every host and every context, while the
  settings view (lines 63 and 70, default true) lists both features as enabled.
\<close>

theorem absent_feature_keys_read_as_disabled:
  \<open>getCurrentFilePath h uri (fresh Map.empty) =
     \<lparr> config = Map.empty, clipboard = [],
       trace = [ShowWarningMessage txt_getPath_disabled] \<rparr>
   \<and> openInExternalTerminal h uri (fresh Map.empty) =
     \<lparr> config = Map.empty, clipboard = [],
       trace = [ShowWarningMessage txt_terminal_disabled] \<rparr>
   \<and> map (\<lambda>s. (key s, val s)) (take 2 (getSettings Map.empty)) =
     [(''features.getPathEnabled'', VBool True),
      (''features.openTerminalEnabled'', VBool True)]\<close>
  by (simp add: getCurrentFilePath_def openInExternalTerminal_def getSettings_def
      config_get_def emit_def fresh_def)

text \<open>
  C2. The claim: when \<^verbatim>\<open>path.autoClipboard\<close> is absent, the path command on a valid
  target offers the copy action and writes to the clipboard only when the user picks it. The
  code, with the path feature switched on and nothing else stored, on the file
  \<^verbatim>\<open>/home/u/notes.txt\<close> and a user who picks nothing: line 137 reads the key with the
  default true, so the path is written to the clipboard at once and the confirmation is shown
  without any action, while the settings view (line 84, default false) lists automatic
  copying as off.
\<close>

theorem absent_autoClipboard_copies_at_once:
  \<open>getCurrentFilePath linux_host (Some (Uri ''/home/u/notes.txt''))
     (fresh [''features.getPathEnabled'' \<mapsto> VBool True]) =
     \<lparr> config = [''features.getPathEnabled'' \<mapsto> VBool True],
       clipboard = ''/home/u/notes.txt'',
       trace = [FsStat (Uri ''/home/u/notes.txt''),
                ClipboardWriteText ''/home/u/notes.txt'',
                ShowInformationMessage
                  (txt_file_icon @ ''/home/u/notes.txt'' @ txt_copied_suffix) []] \<rparr>
   \<and> pick linux_host (txt_file_icon @ ''/home/u/notes.txt'') [txt_copy_path] = None
   \<and> map (\<lambda>s. (key s, val s))
       (drop 3 (getSettings [''features.getPathEnabled'' \<mapsto> VBool True])) =
     [(''path.autoClipboard'', VBool False)]\<close>
  by (simp add: getCurrentFilePath_def copyOrOffer_def writeText_def getSettings_def
      config_get_def emit_def fresh_def linux_host_def FileType_File_def
      FileType_Directory_def Let_def)

subsection \<open>The custom terminal template\<close>

text \<open>
  What \<open>replace\<close> does with a replacement that holds no dollar sign: the text is inserted as
  it is, in place of the first occurrence of the pattern, and the rest of the string, later
  occurrences included, is kept.
\<close>

lemma getSubstitution_plain:
  \<open>CHR ''$'' \<notin> set r \<Longrightarrow> getSubstitution matched preceding following r = r\<close>
  by (induction matched preceding following r rule: getSubstitution.induct) auto

lemma splitAtFirst_sound:
  \<open>splitAtFirst pat s = Some (a, b) \<Longrightarrow> s = a @ pat @ b\<close>
proof (induction s arbitrary: a b)
  case Nil
  then show ?case by (simp split: if_splits)
next
  case (Cons c cs)
  show ?case
  proof (cases \<open>take (length pat) (c # cs) = pat\<close>)
    case True
    with Cons.prems have \<open>a = []\<close> and \<open>b = drop (length pat) (c # cs)\<close>
      by simp_all
    with True show ?thesis
      by (metis append_Nil append_take_drop_id)
  next
    case False
    with Cons.prems obtain a' where \<open>splitAtFirst pat cs = Some (a', b)\<close> and \<open>a = c # a'\<close>
      by (auto split: option.splits)
    with Cons.IH show ?thesis by simp
  qed
qed

lemma splitAtFirst_first:
  \<open>splitAtFirst pat s = Some (a, b) \<Longrightarrow> i < length a \<Longrightarrow>
     take (length pat) (drop i s) \<noteq> pat\<close>
proof (induction s arbitrary: a b i)
  case Nil
  then show ?case by (simp split: if_splits)
next
  case (Cons c cs)
  show ?case
  proof (cases \<open>take (length pat) (c # cs) = pat\<close>)
    case True
    with Cons.prems show ?thesis by simp
  next
    case False
    with Cons.prems obtain a' where split: \<open>splitAtFirst pat cs = Some (a', b)\<close>
      and a: \<open>a = c # a'\<close>
      by (auto split: option.splits)
    show ?thesis
    proof (cases i)
      case 0
      with False show ?thesis by simp
    next
      case (Suc j)
      with Cons.prems(2) a have \<open>j < length a'\<close> by simp
      with Cons.IH [OF split] Suc show ?thesis by simp
    qed
  qed
qed

lemma replace_first_occurrence:
  \<open>CHR ''$'' \<notin> set r \<Longrightarrow> splitAtFirst pat s = Some (a, b) \<Longrightarrow> replace s pat r = a @ r @ b\<close>
  by (simp add: replace_def getSubstitution_plain)

lemma replace_no_occurrence:
  \<open>splitAtFirst pat s = None \<Longrightarrow> replace s pat r = s\<close>
  by (simp add: replace_def)

text \<open>
  C10. The claim: with \<^verbatim>\<open>terminal.linux\<close> set to \<^verbatim>\<open>custom\<close> and a template, the command
  is the template with the resolved directory in place of the first \<^verbatim>\<open>{path}\<close>, later
  occurrences kept. The code, on the directory \<^verbatim>\<open>/home/u/cash$$\<close> and the template
  \<^verbatim>\<open>xterm -e "cd {path}; bash" -T {path}\<close>: line 271 passes the directory as the
  replacement string of \<^verbatim>\<open>replace\<close>, which reads \<^verbatim>\<open>$$\<close> as one dollar sign, so the
  shell is handed a command on \<^verbatim>\<open>/home/u/cash$\<close>, a directory other than the resolved one
  (named as such in the notification that follows). The second occurrence is kept.
\<close>

theorem custom_template_mangles_dollar_directory:
  \<open>openInExternalTerminal (linux_host\<lparr>stat := (\<lambda>u. Some FileType_Directory)\<rparr>)
     (Some (Uri ''/home/u/cash$$''))
     (fresh [''features.openTerminalEnabled'' \<mapsto> VBool True,
             ''terminal.linux'' \<mapsto> VStr ''custom'',
             ''terminal.customCommand'' \<mapsto> VStr ''xterm -e "cd {path}; bash" -T {path}'']) =
     \<lparr> config = [''features.openTerminalEnabled'' \<mapsto> VBool True,
                  ''terminal.linux'' \<mapsto> VStr ''custom'',
                  ''terminal.customCommand'' \<mapsto>
                     VStr ''xterm -e "cd {path}; bash" -T {path}''],
       clipboard = [],
       trace = [FsStat (Uri ''/home/u/cash$$''),
                Exec ''xterm -e "cd /home/u/cash$; bash" -T {path}'',
                ShowInformationMessage (txt_opened_in @ ''/home/u/cash$$'') []] \<rparr>\<close>
  by (simp add: openInExternalTerminal_def buildCommand_def replace_def config_get_def
      emit_def fresh_def linux_host_def FileType_Directory_def Let_def)

end
